theory Spec2Isabelle
  imports Complex_Main
begin

section \<open>The dashboard of app.py: data model\<close>

text \<open>
  \<^verbatim>\<open>app.py\<close> is a Streamlit script. Its one function with logic of its own is
  \<^verbatim>\<open>load_data\<close> (lines 36-66); the rest of the script (lines 68-292) is the page
  that calls it. The script hands every piece of real work to a library: gspread
  fetches the records, pandas builds and converts the table, Streamlit caches and
  renders. The libraries are not part of the repository. What the script relies on is
  written out below as definitions, each with the call of the source it stands for; what
  a library decides alone (how a string is read as a number or as a date, how a cell is
  printed) is a parameter.
\<close>

subsection \<open>Cells, dtypes, series and data frames\<close>

text \<open>
  A cell of a record of \<^verbatim>\<open>worksheet.get_all_records()\<close> is an int, a float or a
  string; pandas adds NaN, timestamps and NaT.
\<close>

datatype number = PyInt int | PyFloat real | NaN

datatype datetime = At int | NaT

datatype cell = Num number | Str string | Date datetime

datatype dtype = Int64 | Float64 | Object | Datetime64

record series =
  dtype :: dtype
  vals :: "cell list"

text \<open>A record of the sheet is a Python dict: its keys in insertion order.\<close>

type_synonym record_row = "(string \<times> cell) list"

text \<open>
  A data frame: the length of its index (the number of rows) and its columns in order,
  each a label and a series.
\<close>

record dataframe =
  index :: nat
  cols :: "(string \<times> series) list"

definition columns :: "dataframe \<Rightarrow> string list" where
  "columns df = map fst (cols df)"

text \<open>\<^verbatim>\<open>df.empty\<close>: some axis has length 0.\<close>

definition empty_df :: "dataframe \<Rightarrow> bool" where
  "empty_df df = (index df = 0 \<or> cols df = [])"

text \<open>\<^verbatim>\<open>select_dtypes(include=['number'])\<close> keeps the integer and float columns.\<close>

fun is_numeric_dtype :: "dtype \<Rightarrow> bool" where
  "is_numeric_dtype Int64 = True"
| "is_numeric_dtype Float64 = True"
| "is_numeric_dtype Object = False"
| "is_numeric_dtype Datetime64 = False"

subsection \<open>What pandas decides alone\<close>

text \<open>
  The readers of strings inside \<^verbatim>\<open>pd.to_numeric\<close> and \<^verbatim>\<open>pd.to_datetime\<close>, and
  the printer of cells inside \<^verbatim>\<open>to_csv\<close>, are parameters. \<open>None\<close> is a string the
  reader rejects.
\<close>

record pandas =
  str_to_num :: "string \<Rightarrow> number option"
  str_to_date :: "string \<Rightarrow> datetime option"
  cell_to_str :: "cell \<Rightarrow> string"

subsection \<open>\<^verbatim>\<open>pd.DataFrame(data)\<close> (line 50)\<close>

fun is_int_cell :: "cell \<Rightarrow> bool" where
  "is_int_cell (Num (PyInt n)) = True"
| "is_int_cell c = False"

fun is_num_cell :: "cell \<Rightarrow> bool" where
  "is_num_cell (Num n) = True"
| "is_num_cell c = False"

fun is_date_cell :: "cell \<Rightarrow> bool" where
  "is_date_cell (Date d) = True"
| "is_date_cell c = False"

fun as_float :: "cell \<Rightarrow> cell" where
  "as_float (Num (PyInt n)) = Num (PyFloat (of_int n))"
| "as_float c = c"

text \<open>
  The dtype pandas gives a column of Python objects: int64 when all are ints, float64
  (the ints cast) when all are numbers, object otherwise.
\<close>

definition infer_series :: "cell list \<Rightarrow> series" where
  "infer_series vs =
     (if list_all is_int_cell vs then \<lparr>dtype = Int64, vals = vs\<rparr>
      else if list_all is_num_cell vs then \<lparr>dtype = Float64, vals = map as_float vs\<rparr>
      else \<lparr>dtype = Object, vals = vs\<rparr>)"

text \<open>The keys of all records, each once, in the order of first appearance.\<close>

definition all_keys :: "record_row list \<Rightarrow> string list" where
  "all_keys data = rev (remdups (rev (concat (map (map fst) data))))"

text \<open>A record without the key gives NaN in that column.\<close>

definition column_of :: "record_row list \<Rightarrow> string \<Rightarrow> cell list" where
  "column_of data k =
     map (\<lambda>r. case map_of r k of Some v \<Rightarrow> v | None \<Rightarrow> Num NaN) data"

definition DataFrame :: "record_row list \<Rightarrow> dataframe" where
  "DataFrame data =
     \<lparr>index = length data,
      cols = map (\<lambda>k. (k, infer_series (column_of data k))) (all_keys data)\<rparr>"

subsection \<open>\<^verbatim>\<open>pd.to_numeric(s, errors='ignore')\<close> (line 56)\<close>

text \<open>
  A number is itself, a string is read by the library's reader, a timestamp is not a
  number. With \<^verbatim>\<open>errors='ignore'\<close> a single cell that fails returns the input
  series as it was; when all cells succeed the result is an int64 or float64 series.
\<close>

fun num_of_cell :: "pandas \<Rightarrow> cell \<Rightarrow> number option" where
  "num_of_cell L (Num n) = Some n"
| "num_of_cell L (Str s) = str_to_num L s"
| "num_of_cell L (Date d) = None"

definition to_numeric_ignore :: "pandas \<Rightarrow> series \<Rightarrow> series" where
  "to_numeric_ignore L s =
     (case those (map (num_of_cell L) (vals s)) of
        None \<Rightarrow> s
      | Some ns \<Rightarrow> infer_series (map Num ns))"

subsection \<open>\<^verbatim>\<open>pd.to_datetime(s, errors='ignore')\<close> (line 60)\<close>

text \<open>
  A number is taken as nanoseconds since the epoch (NaN as NaT), a string is read by
  the library's reader, a timestamp is itself. With \<^verbatim>\<open>errors='ignore'\<close> a single
  cell that fails returns the input series as it was; when all cells succeed the result
  is a datetime64 series.
\<close>

fun date_of_cell :: "pandas \<Rightarrow> cell \<Rightarrow> datetime option" where
  "date_of_cell L (Num (PyInt n)) = Some (At n)"
| "date_of_cell L (Num (PyFloat x)) = Some (At \<lfloor>x\<rfloor>)"
| "date_of_cell L (Num NaN) = Some NaT"
| "date_of_cell L (Str s) = str_to_date L s"
| "date_of_cell L (Date d) = Some d"

definition to_datetime_ignore :: "pandas \<Rightarrow> series \<Rightarrow> series" where
  "to_datetime_ignore L s =
     (case those (map (date_of_cell L) (vals s)) of
        None \<Rightarrow> s
      | Some ds \<Rightarrow> \<lparr>dtype = Datetime64, vals = map Date ds\<rparr>)"

subsection \<open>Strings: \<^verbatim>\<open>col.lower()\<close> and \<^verbatim>\<open>'tanggal' in ...\<close> (line 59)\<close>

definition lower_char :: "char \<Rightarrow> char" where
  "lower_char c =
     (case map_of (zip ''ABCDEFGHIJKLMNOPQRSTUVWXYZ'' ''abcdefghijklmnopqrstuvwxyz'') c of
        Some l \<Rightarrow> l
      | None \<Rightarrow> c)"

definition lower :: "string \<Rightarrow> string" where
  "lower s = map lower_char s"

text \<open>\<^verbatim>\<open>sub in s\<close>: \<open>sub\<close> occurs in \<open>s\<close> as a contiguous substring.\<close>

fun contains :: "string \<Rightarrow> string \<Rightarrow> bool" where
  "contains sub [] = (sub = [])"
| "contains sub (c # cs) = (take (length sub) (c # cs) = sub \<or> contains sub cs)"

definition is_date_name :: "string \<Rightarrow> bool" where
  "is_date_name col = (contains ''tanggal'' (lower col) \<or> contains ''date'' (lower col))"

subsection \<open>\<^verbatim>\<open>df[col]\<close> and \<^verbatim>\<open>df[col] = s\<close>\<close>

datatype exn = Exn string

fun str_exn :: "exn \<Rightarrow> string" where
  "str_exn (Exn m) = m"

text \<open>Reading a column that is not there raises KeyError.\<close>

definition getitem :: "dataframe \<Rightarrow> string \<Rightarrow> exn + series" where
  "getitem df col =
     (case map_of (cols df) col of
        None \<Rightarrow> Inl (Exn ''KeyError'')
      | Some s \<Rightarrow> Inr s)"

text \<open>Assigning to a label replaces that column in place; a new label is appended.\<close>

definition setitem :: "dataframe \<Rightarrow> string \<Rightarrow> series \<Rightarrow> dataframe" where
  "setitem df col s =
     (if col \<in> set (columns df)
      then df\<lparr>cols := map (\<lambda>(k, x). if k = col then (k, s) else (k, x)) (cols df)\<rparr>
      else df\<lparr>cols := cols df @ [(col, s)]\<rparr>)"

section \<open>The loader: \<^verbatim>\<open>load_data\<close> (lines 36-66)\<close>

subsection \<open>The conversion loop (lines 53-60)\<close>

text \<open>
  \<^verbatim>\<open>
  for col in df.columns:
      if df[col].dtype == 'object':
          df[col] = pd.to_numeric(df[col], errors='ignore')
      if 'tanggal' in col.lower() or 'date' in col.lower():
          df[col] = pd.to_datetime(df[col], errors='ignore')
  \<close>
  One pass of the body is \<open>convert_col\<close>; the loop runs it over the labels that
  \<^verbatim>\<open>df.columns\<close> had when the loop began.
\<close>

definition numeric_step :: "pandas \<Rightarrow> series \<Rightarrow> series" where
  "numeric_step L s = (if dtype s = Object then to_numeric_ignore L s else s)"

definition date_step :: "pandas \<Rightarrow> string \<Rightarrow> series \<Rightarrow> series" where
  "date_step L col s = (if is_date_name col then to_datetime_ignore L s else s)"

definition convert_col :: "pandas \<Rightarrow> string \<Rightarrow> dataframe \<Rightarrow> exn + dataframe" where
  "convert_col L col df =
     (case getitem df col of
        Inl e \<Rightarrow> Inl e
      | Inr s \<Rightarrow>
          let df1 = (if dtype s = Object then setitem df col (to_numeric_ignore L s) else df)
          in if contains ''tanggal'' (lower col) \<or> contains ''date'' (lower col)
             then (case getitem df1 col of
                     Inl e \<Rightarrow> Inl e
                   | Inr s1 \<Rightarrow> Inr (setitem df1 col (to_datetime_ignore L s1)))
             else Inr df1)"

fun convert_loop :: "pandas \<Rightarrow> string list \<Rightarrow> dataframe \<Rightarrow> exn + dataframe" where
  "convert_loop L [] df = Inr df"
| "convert_loop L (col # rest) df =
     (case convert_col L col df of
        Inl e \<Rightarrow> Inl e
      | Inr df' \<Rightarrow> convert_loop L rest df')"

definition auto_convert :: "pandas \<Rightarrow> dataframe \<Rightarrow> exn + dataframe" where
  "auto_convert L df = convert_loop L (columns df) df"

subsection \<open>The sheet service (gspread) and the body of \<^verbatim>\<open>load_data\<close>\<close>

text \<open>
  Every call into gspread either returns or raises an exception of class
  \<^verbatim>\<open>Exception\<close>; the handles it returns are opaque.
  \<open>service_account\<close> stands for lines 22-29 (the credentials and
  \<^verbatim>\<open>gspread.authorize\<close>), the other three for lines 45, 46 and 49.
\<close>

record ('cl, 'ss, 'ws) gspread =
  service_account :: "exn + 'cl"
  open_by_url :: "'cl \<Rightarrow> string \<Rightarrow> exn + 'ss"
  worksheet :: "'ss \<Rightarrow> string \<Rightarrow> exn + 'ws"
  get_all_records :: "'ws \<Rightarrow> exn + record_row list"

text \<open>
  What a run of the script puts on the page or does to the session, in order. Static
  text (titles, markdown, captions), the spinner and the layout containers are left out,
  and so are the emoji of the messages. The charts and statistics of the tabs
  \<^verbatim>\<open>tab2\<close> and \<^verbatim>\<open>tab3\<close> (lines 137-230) read \<^verbatim>\<open>df\<close> and change nothing; they are
  left out as well.
\<close>

datatype event =
    StError string
  | StWarning string
  | StSuccess string
  | StInfo string
  | Metric string nat
  | Table dataframe
  | DownloadButton string string string string
  | PlaceholderText string
  | Sleep nat
  | CacheDataClear
  | Rerun

text \<open>
  \<^verbatim>\<open>connect_to_gsheet\<close> (lines 17-33): the client, or the message and \<^verbatim>\<open>None\<close>.
  Its \<^verbatim>\<open>st.cache_resource\<close> keeps the first result for the process; the model reads
  the same \<open>service_account\<close> each time.
\<close>

definition connect_to_gsheet :: "('cl, 'ss, 'ws) gspread \<Rightarrow> event list \<times> 'cl option" where
  "connect_to_gsheet B =
     (case service_account B of
        Inl e \<Rightarrow> ([StError (''Error koneksi: '' @ str_exn e)], None)
      | Inr client \<Rightarrow> ([], Some client))"

text \<open>Lines 45-62, the part of the \<^verbatim>\<open>try\<close> block after the client is there.\<close>

definition fetch_and_convert ::
  "pandas \<Rightarrow> ('cl, 'ss, 'ws) gspread \<Rightarrow> 'cl \<Rightarrow> string \<Rightarrow> string \<Rightarrow> exn + dataframe" where
  "fetch_and_convert L B client sheet_url sheet_name =
     (case open_by_url B client sheet_url of
        Inl e \<Rightarrow> Inl e
      | Inr sheet \<Rightarrow>
          (case worksheet B sheet sheet_name of
             Inl e \<Rightarrow> Inl e
           | Inr ws \<Rightarrow>
               (case get_all_records B ws of
                  Inl e \<Rightarrow> Inl e
                | Inr data \<Rightarrow> auto_convert L (DataFrame data))))"

text \<open>
  \<^verbatim>\<open>load_data\<close> without its cache: the messages it shows and what it returns
  (\<open>None\<close> is Python's \<^verbatim>\<open>None\<close>). \<^verbatim>\<open>except Exception as e\<close> (lines 64-66) turns every
  exception of the body into one \<^verbatim>\<open>st.error\<close> and \<^verbatim>\<open>None\<close>.
\<close>

type_synonym loaded = "event list \<times> dataframe option"

definition load_data ::
  "pandas \<Rightarrow> ('cl, 'ss, 'ws) gspread \<Rightarrow> string \<Rightarrow> string \<Rightarrow> loaded" where
  "load_data L B sheet_url sheet_name =
     (case connect_to_gsheet B of
        (out, None) \<Rightarrow> (out, None)
      | (out, Some client) \<Rightarrow>
          (case fetch_and_convert L B client sheet_url sheet_name of
             Inl e \<Rightarrow> (out @ [StError (''Error loading data: '' @ str_exn e)], None)
           | Inr df \<Rightarrow> (out, Some df)))"

subsection \<open>\<^verbatim>\<open>@st.cache_data(ttl=300)\<close> (line 36)\<close>

text \<open>
  Streamlit keeps, for each tuple of arguments, the result of the call (the value
  returned and the elements shown, which a later hit replays) and the time it was
  stored. A call at time \<open>now\<close> (in seconds) is answered from the entry while
  \<open>now < stored + ttl\<close>; otherwise the function runs and its result replaces the entry.
  \<^verbatim>\<open>st.cache_data.clear()\<close> drops every entry of every cached function.
\<close>

type_synonym ('k, 'v) memo = "'k \<rightharpoonup> ('v \<times> nat)"

definition cache_data ::
  "nat \<Rightarrow> ('k \<Rightarrow> 'v) \<Rightarrow> nat \<Rightarrow> ('k, 'v) memo \<Rightarrow> 'k \<Rightarrow> 'v \<times> ('k, 'v) memo" where
  "cache_data ttl f now c k =
     (case c k of
        Some (v, stored) \<Rightarrow>
          if now < stored + ttl then (v, c) else (f k, c(k \<mapsto> (f k, now)))
      | None \<Rightarrow> (f k, c(k \<mapsto> (f k, now))))"

definition cache_data_clear :: "('k, 'v) memo \<Rightarrow> ('k, 'v) memo" where
  "cache_data_clear c = Map.empty"

type_synonym cache = "(string \<times> string, loaded) memo"

text \<open>\<^verbatim>\<open>load_data\<close> as the script calls it: keyed by its two arguments, ttl 300.\<close>

definition cached_load_data ::
  "pandas \<Rightarrow> ('cl, 'ss, 'ws) gspread \<Rightarrow> nat \<Rightarrow> cache \<Rightarrow> string \<Rightarrow> string \<Rightarrow> loaded \<times> cache" where
  "cached_load_data L B now c sheet_url sheet_name =
     cache_data 300 (\<lambda>(u, n). load_data L B u n) now c (sheet_url, sheet_name)"

section \<open>The page (lines 68-292)\<close>

subsection \<open>The export: \<^verbatim>\<open>df.to_csv(index=False)\<close> (line 129)\<close>

text \<open>
  pandas writes the labels and then each row through Python's \<^verbatim>\<open>csv.writer\<close> with
  its defaults: comma, the double quote, minimal quoting with doubled quotes, every
  record ended by a line feed. A field is quoted when it holds a comma, a double quote,
  a line feed or a carriage return; a record that is one empty field is written as two
  double quotes.
\<close>

definition dquote :: char where
  "dquote = CHR 0x22"

definition newline :: char where
  "newline = CHR 0x0A"

definition comma :: char where
  "comma = CHR '',''"

definition special :: "char \<Rightarrow> bool" where
  "special c = (c = comma \<or> c = dquote \<or> c = newline \<or> c = CHR 0x0D)"

fun escape :: "string \<Rightarrow> string" where
  "escape [] = []"
| "escape (c # cs) = (if c = dquote then dquote # dquote # escape cs else c # escape cs)"

definition csv_field :: "string \<Rightarrow> string" where
  "csv_field f = (if list_ex special f then dquote # escape f @ [dquote] else f)"

fun join_fields :: "string list \<Rightarrow> string" where
  "join_fields [] = []"
| "join_fields [f] = csv_field f"
| "join_fields (f # g # fs) = csv_field f @ comma # join_fields (g # fs)"

definition writerow :: "string list \<Rightarrow> string" where
  "writerow fs = (if fs = [[]] then [dquote, dquote] else join_fields fs) @ [newline]"

text \<open>Row \<open>i\<close> of a frame, and all its rows in order.\<close>

definition row_at :: "dataframe \<Rightarrow> nat \<Rightarrow> cell list" where
  "row_at df i = map (\<lambda>(k, s). vals s ! i) (cols df)"

definition rows :: "dataframe \<Rightarrow> cell list list" where
  "rows df = map (row_at df) [0..<index df]"

definition to_csv :: "pandas \<Rightarrow> dataframe \<Rightarrow> string" where
  "to_csv L df =
     writerow (columns df) @ concat (map (\<lambda>r. writerow (map (cell_to_str L) r)) (rows df))"

subsection \<open>The countdown (lines 239-242)\<close>

definition digit :: "nat \<Rightarrow> char" where
  "digit d = ''0123456789'' ! d"

fun str_nat :: "nat \<Rightarrow> string" where
  "str_nat n = (if n < 10 then [digit n] else str_nat (n div 10) @ [digit (n mod 10)])"

declare str_nat.simps [simp del]

text \<open>The format \<^verbatim>\<open>{n:02d}\<close>: at least two digits.\<close>

definition fmt02 :: "nat \<Rightarrow> string" where
  "fmt02 n = (if n < 10 then CHR ''0'' # str_nat n else str_nat n)"

text \<open>\<^verbatim>\<open>range(n, 0, -1)\<close>: from \<open>n\<close> down to 1.\<close>

fun range_down :: "nat \<Rightarrow> nat list" where
  "range_down 0 = []"
| "range_down (Suc n) = Suc n # range_down n"

fun countdown_loop :: "nat list \<Rightarrow> event list" where
  "countdown_loop [] = []"
| "countdown_loop (seconds # rest) =
     PlaceholderText (''Refresh berikutnya dalam: '' @ fmt02 (seconds div 60) @ '':''
        @ fmt02 (seconds mod 60))
     # Sleep 1
     # countdown_loop rest"

definition countdown :: "event list" where
  "countdown = countdown_loop (range_down 300)"

subsection \<open>One run of the script\<close>

text \<open>
  The state of the widgets of the sidebar and of tab1 in this run, and the two strings
  the script formats from \<^verbatim>\<open>datetime.now()\<close>.
\<close>

record widgets =
  sheet_url :: string
  sheet_name :: string
  auto_refresh :: bool
  refresh_now :: bool
  rows_to_show :: nat
  current_time :: string
  today :: string

text \<open>\<^verbatim>\<open>df.tail(n)\<close>: the last \<open>n\<close> rows.\<close>

definition tail :: "nat \<Rightarrow> dataframe \<Rightarrow> dataframe" where
  "tail n df =
     \<lparr>index = min n (index df),
      cols = map (\<lambda>(k, s). (k, s\<lparr>vals := drop (length (vals s) - n) (vals s)\<rparr>)) (cols df)\<rparr>"

definition numeric_cols :: "dataframe \<Rightarrow> string list" where
  "numeric_cols df = map fst (filter (\<lambda>(k, s). is_numeric_dtype (dtype s)) (cols df))"

text \<open>Lines 100-135: the success message, the four metrics, the table and the export.\<close>

definition show_data :: "pandas \<Rightarrow> widgets \<Rightarrow> dataframe \<Rightarrow> event list" where
  "show_data L w df =
     [StSuccess (''Data berhasil dimuat! Update terakhir: '' @ current_time w),
      Metric ''Total Baris'' (index df),
      Metric ''Total Kolom'' (length (columns df)),
      Metric ''Kolom Numerik'' (length (numeric_cols df)),
      Metric ''Data Terakhir'' (index df - 1 + 1),
      Table (tail (rows_to_show w) df),
      DownloadButton ''Download CSV'' (to_csv L df) (''data_'' @ today w @ ''.csv'') ''text/csv'']"

text \<open>Lines 268-275: the table of the welcome screen.\<close>

definition sample_data :: dataframe where
  "sample_data =
     \<lparr>index = 3,
      cols =
        [(''Tanggal'', \<lparr>dtype = Object,
            vals = [Str ''2024-01-01'', Str ''2024-01-02'', Str ''2024-01-03'']\<rparr>),
         (''Penjualan'', \<lparr>dtype = Int64,
            vals = [Num (PyInt 5000000), Num (PyInt 7500000), Num (PyInt 6200000)]\<rparr>),
         (''Produk'', \<lparr>dtype = Object,
            vals = [Str ''Laptop'', Str ''Mouse'', Str ''Keyboard'']\<rparr>),
         (''Kota'', \<lparr>dtype = Object,
            vals = [Str ''Jakarta'', Str ''Surabaya'', Str ''Bandung'']\<rparr>),
         (''Sales'', \<lparr>dtype = Object,
            vals = [Str ''John'', Str ''Jane'', Str ''Bob'']\<rparr>)]\<rparr>"

text \<open>
  The script from top to bottom, at time \<open>now\<close> with the cache \<open>c\<close>: what it shows and
  does, and the cache it leaves. \<^verbatim>\<open>st.rerun()\<close> ends the run where it stands.
  \<^verbatim>\<open>
  if st.button(...):  st.cache_data.clear(); st.rerun()          # 89-91
  if sheet_url:                                                   # 94
      df = load_data(sheet_url, sheet_name)                       # 97
      if df is not None and not df.empty:                         # 99
          ...                                                     # 100-230
          if auto_refresh:                                        # 233
              st.info(...); countdown; st.cache_data.clear(); st.rerun()
      elif df is not None:  st.warning(...)                       # 248-249
      else:                 st.error(...)                         # 250-251
  else:
      st.info(...); ...; st.dataframe(sample_data)                # 253-275
  \<close>
\<close>

definition script ::
  "pandas \<Rightarrow> ('cl, 'ss, 'ws) gspread \<Rightarrow> widgets \<Rightarrow> nat \<Rightarrow> cache \<Rightarrow> event list \<times> cache" where
  "script L B w now c =
     (if refresh_now w then ([CacheDataClear, Rerun], cache_data_clear c)
      else if sheet_url w \<noteq> [] then
        (case cached_load_data L B now c (sheet_url w) (sheet_name w) of
           ((out, df), c') \<Rightarrow>
             (case df of
                Some d \<Rightarrow>
                  if \<not> empty_df d then
                    (if auto_refresh w
                     then (out @ show_data L w d
                             @ [StInfo ''Auto-refresh aktif. Data akan diperbarui otomatis setiap 5 menit.'']
                             @ countdown @ [CacheDataClear, Rerun],
                           cache_data_clear c')
                     else (out @ show_data L w d, c'))
                  else (out @ [StWarning ''Sheet kosong atau tidak ada data''], c')
              | None \<Rightarrow> (out @ [StError ''Gagal memuat data. Cek URL dan permissions!''], c')))
      else ([StInfo ''Masukkan URL Google Sheets di sidebar untuk mulai!'', Table sample_data], c))"

section \<open>Notions of the specification\<close>

text \<open>
  The loop body as one function of the label and the series: the numeric attempt, then
  the date attempt on its result.
\<close>

definition convert_series :: "pandas \<Rightarrow> string \<Rightarrow> series \<Rightarrow> series" where
  "convert_series L col s = date_step L col (numeric_step L s)"

text \<open>The frame after the loop, when the labels are distinct: every column converted.\<close>

definition converted :: "pandas \<Rightarrow> dataframe \<Rightarrow> dataframe" where
  "converted L df = df\<lparr>cols := map (\<lambda>(k, s). (k, convert_series L k s)) (cols df)\<rparr>"

text \<open>A value is numeric-parseable (date-parseable) when the conversion accepts it.\<close>

definition numeric_parseable :: "pandas \<Rightarrow> cell \<Rightarrow> bool" where
  "numeric_parseable L c = (num_of_cell L c \<noteq> None)"

definition date_parseable :: "pandas \<Rightarrow> cell \<Rightarrow> bool" where
  "date_parseable L c = (date_of_cell L c \<noteq> None)"

text \<open>The series under a label of a frame.\<close>

definition series_of :: "dataframe \<Rightarrow> string \<Rightarrow> series option" where
  "series_of df col = map_of (cols df) col"

text \<open>Where a cached entry is fresh: the freshness window of the entry.\<close>

definition fresh :: "('k, 'v) memo \<Rightarrow> 'k \<Rightarrow> nat \<Rightarrow> bool" where
  "fresh c k now = (case c k of Some (v, stored) \<Rightarrow> now < stored + 300 | None \<Rightarrow> False)"

subsection \<open>Reading the export back\<close>

text \<open>
  The script has no reader of its export. The round trip of the specification is taken
  with the reader of the format that \<open>writerow\<close> writes: fields separated by commas,
  records ended by a line feed, a field in double quotes holding any character, a double
  quote inside it written twice. The cells come back as strings.
\<close>

datatype pstate = FieldStart | Unquoted | Quoted | QuoteSeen

fun parse :: "pstate \<Rightarrow> string \<Rightarrow> string list \<Rightarrow> string \<Rightarrow> string list list" where
  "parse st fld row [] = (if st = FieldStart \<and> row = [] then [] else [row @ [fld]])"
| "parse FieldStart fld row (c # cs) =
     (if c = dquote then parse Quoted [] row cs
      else if c = comma then parse FieldStart [] (row @ [[]]) cs
      else if c = newline then (row @ [[]]) # parse FieldStart [] [] cs
      else parse Unquoted [c] row cs)"
| "parse Unquoted fld row (c # cs) =
     (if c = comma then parse FieldStart [] (row @ [fld]) cs
      else if c = newline then (row @ [fld]) # parse FieldStart [] [] cs
      else parse Unquoted (fld @ [c]) row cs)"
| "parse Quoted fld row (c # cs) =
     (if c = dquote then parse QuoteSeen fld row cs
      else parse Quoted (fld @ [c]) row cs)"
| "parse QuoteSeen fld row (c # cs) =
     (if c = dquote then parse Quoted (fld @ [dquote]) row cs
      else if c = comma then parse FieldStart [] (row @ [fld]) cs
      else if c = newline then (row @ [fld]) # parse FieldStart [] [] cs
      else parse Unquoted (fld @ [c]) row cs)"

definition parse_csv :: "string \<Rightarrow> string list list" where
  "parse_csv s = parse FieldStart [] [] s"

text \<open>What the reader does once a field \<open>f\<close> has ended at the separator \<open>sep\<close>.\<close>

definition next_field :: "string list \<Rightarrow> string \<Rightarrow> char \<Rightarrow> string \<Rightarrow> string list list" where
  "next_field row f sep rest =
     (if sep = comma then parse FieldStart [] (row @ [f]) rest
      else (row @ [f]) # parse FieldStart [] [] rest)"

text \<open>A frame is well formed when every column has one value for each row.\<close>

definition well_formed :: "dataframe \<Rightarrow> bool" where
  "well_formed df = list_all (\<lambda>(k, s). length (vals s) = index df) (cols df)"

section \<open>Instances for the examples\<close>

text \<open>
  One choice of the library's readers and printer, to run the model on concrete sheets:
  the number reader accepts decimal integers, the date reader accepts
  \<^verbatim>\<open>YYYY-MM-DD\<close> (as nanoseconds since 1970-01-01), the printer writes integers in
  decimal, strings as they are, NaN and NaT as the empty string, a float by its integer
  part and a timestamp by its nanoseconds.
\<close>

definition digit_val :: "char \<Rightarrow> nat option" where
  "digit_val c = map_of (zip ''0123456789'' [0, 1, 2, 3, 4, 5, 6, 7, 8, 9]) c"

fun read_digits :: "nat \<Rightarrow> string \<Rightarrow> nat option" where
  "read_digits acc [] = Some acc"
| "read_digits acc (c # cs) =
     (case digit_val c of None \<Rightarrow> None | Some d \<Rightarrow> read_digits (10 * acc + d) cs)"

definition read_nat :: "string \<Rightarrow> nat option" where
  "read_nat s = (if s = [] then None else read_digits 0 s)"

definition read_int :: "string \<Rightarrow> int option" where
  "read_int s =
     (case s of
        [] \<Rightarrow> None
      | c # cs \<Rightarrow>
          if c = CHR ''-'' then map_option (\<lambda>n. - int n) (read_nat cs)
          else map_option int (read_nat s))"

definition leap_year :: "nat \<Rightarrow> bool" where
  "leap_year y = (y mod 4 = 0 \<and> (y mod 100 \<noteq> 0 \<or> y mod 400 = 0))"

definition days_in_month :: "nat \<Rightarrow> nat \<Rightarrow> nat" where
  "days_in_month y m =
     (if m = 2 then (if leap_year y then 29 else 28)
      else if m = 4 \<or> m = 6 \<or> m = 9 \<or> m = 11 then 30
      else 31)"

text \<open>Days from 1970-01-01 to the given day of the Gregorian calendar.\<close>

definition days_from_civil :: "int \<Rightarrow> int \<Rightarrow> int \<Rightarrow> int" where
  "days_from_civil y m d =
     (let y' = (if m \<le> 2 then y - 1 else y);
          era = y' div 400;
          yoe = y' - era * 400;
          doy = (153 * (if m > 2 then m - 3 else m + 9) + 2) div 5 + d - 1;
          doe = yoe * 365 + yoe div 4 - yoe div 100 + doy
      in era * 146097 + doe - 719468)"

definition read_iso_date :: "string \<Rightarrow> datetime option" where
  "read_iso_date s =
     (if length s = 10 \<and> s ! 4 = CHR ''-'' \<and> s ! 7 = CHR ''-'' then
        (case (read_nat (take 4 s), read_nat (take 2 (drop 5 s)), read_nat (drop 8 s)) of
           (Some y, Some m, Some d) \<Rightarrow>
             if 1 \<le> m \<and> m \<le> 12 \<and> 1 \<le> d \<and> d \<le> days_in_month y m
             then Some (At (days_from_civil (int y) (int m) (int d) * 86400000000000))
             else None
         | _ \<Rightarrow> None)
      else None)"

definition str_int :: "int \<Rightarrow> string" where
  "str_int i = (if i < 0 then CHR ''-'' # str_nat (nat (- i)) else str_nat (nat i))"

fun plain_str :: "cell \<Rightarrow> string" where
  "plain_str (Num (PyInt n)) = str_int n"
| "plain_str (Num (PyFloat x)) = str_int \<lfloor>x\<rfloor>"
| "plain_str (Num NaN) = []"
| "plain_str (Str s) = s"
| "plain_str (Date (At t)) = str_int t"
| "plain_str (Date NaT) = []"

definition plain_pandas :: pandas where
  "plain_pandas =
     \<lparr>str_to_num = (\<lambda>s. map_option PyInt (read_int s)),
      str_to_date = read_iso_date,
      cell_to_str = plain_str\<rparr>"

text \<open>
  A service with one spreadsheet of one worksheet holding the given records: any other
  URL or sheet name raises.
\<close>

definition one_sheet :: "string \<Rightarrow> string \<Rightarrow> record_row list \<Rightarrow> (unit, unit, unit) gspread" where
  "one_sheet url name data =
     \<lparr>service_account = Inr (),
      open_by_url = (\<lambda>client u. if u = url then Inr () else Inl (Exn ''SpreadsheetNotFound'')),
      worksheet = (\<lambda>sheet n. if n = name then Inr () else Inl (Exn ''WorksheetNotFound'')),
      get_all_records = (\<lambda>ws. Inr data)\<rparr>"

text \<open>The two records of the scenario of the specification.\<close>

definition scenario_rows :: "record_row list" where
  "scenario_rows =
     [[(''Tanggal'', Str ''2024-01-01''), (''Penjualan'', Num (PyInt 5000000)),
       (''Produk'', Str ''Laptop'')],
      [(''Tanggal'', Str ''2024-01-02''), (''Penjualan'', Num (PyInt 7500000)),
       (''Produk'', Str ''Mouse'')]]"

definition some_widgets :: widgets where
  "some_widgets =
     \<lparr>sheet_url = ''https://docs.google.com/spreadsheets/d/abc'',
      sheet_name = ''Sheet1'',
      auto_refresh = False,
      refresh_now = False,
      rows_to_show = 20,
      current_time = ''10:15:00'',
      today = ''20240103''\<rparr>"

section \<open>Properties of the model\<close>

subsection \<open>The conversion loop is one conversion per column\<close>

lemma map_of_mid:
  "k \<notin> fst ` set pre \<Longrightarrow> map_of (pre @ (k, s) # post) k = Some s"
  by (induction pre) auto

lemma replace_absent:
  "k \<notin> fst ` set xs \<Longrightarrow>
   map (\<lambda>(k', x). if k' = k then (k', s') else (k', x)) xs = xs"
  by (induction xs) auto

lemma getitem_mid:
  "k \<notin> fst ` set pre \<Longrightarrow> getitem \<lparr>index = n, cols = pre @ (k, s) # post\<rparr> k = Inr s"
  by (simp add: getitem_def map_of_mid del: map_of_append)

lemma setitem_mid:
  "k \<notin> fst ` set pre \<Longrightarrow> k \<notin> fst ` set post \<Longrightarrow>
   setitem \<lparr>index = n, cols = pre @ (k, s) # post\<rparr> k s'
     = \<lparr>index = n, cols = pre @ (k, s') # post\<rparr>"
  by (simp add: setitem_def columns_def replace_absent)

lemma convert_col_mid:
  assumes "k \<notin> fst ` set pre" "k \<notin> fst ` set post"
  shows "convert_col L k \<lparr>index = n, cols = pre @ (k, s) # post\<rparr>
     = Inr \<lparr>index = n, cols = pre @ (k, convert_series L k s) # post\<rparr>"
  using assms
  by (simp add: convert_col_def getitem_mid setitem_mid convert_series_def date_step_def
      numeric_step_def is_date_name_def Let_def)

lemma convert_loop_suffix:
  "distinct (map fst (pre @ cs)) \<Longrightarrow>
   convert_loop L (map fst cs) \<lparr>index = n, cols = pre @ cs\<rparr>
     = Inr \<lparr>index = n, cols = pre @ map (\<lambda>(k, s). (k, convert_series L k s)) cs\<rparr>"
proof (induction cs arbitrary: pre)
  case Nil
  then show ?case by simp
next
  case (Cons c cs)
  obtain k s where c: "c = (k, s)" by (cases c)
  from Cons.prems c have k: "k \<notin> fst ` set pre" "k \<notin> fst ` set cs"
    by auto
  from Cons.prems c have d: "distinct (map fst ((pre @ [(k, convert_series L k s)]) @ cs))"
    by auto
  show ?case
    using Cons.IH [OF d] k by (simp add: c convert_col_mid)
qed

lemma auto_convert_eq:
  assumes "distinct (columns df)"
  shows "auto_convert L df = Inr (converted L df)"
proof -
  have d: "distinct (map fst ([] @ cols df))" using assms by (simp add: columns_def)
  have e: "\<lparr>index = index df, cols = [] @ cols df\<rparr> = df" by simp
  show ?thesis
    using convert_loop_suffix [OF d, of L "index df"]
    unfolding e auto_convert_def columns_def converted_def by simp
qed

lemma distinct_all_keys: "distinct (all_keys data)"
  by (simp add: all_keys_def)

lemma columns_DataFrame: "columns (DataFrame data) = all_keys data"
  by (simp add: columns_def DataFrame_def comp_def)

lemma auto_convert_DataFrame:
  "auto_convert L (DataFrame data) = Inr (converted L (DataFrame data))"
  by (simp add: auto_convert_eq columns_DataFrame distinct_all_keys)

lemma index_converted: "index (converted L df) = index df"
  by (simp add: converted_def)

lemma columns_converted: "columns (converted L df) = columns df"
  by (simp add: converted_def columns_def comp_def case_prod_unfold)

lemma map_of_map_keyed:
  "map_of (map (\<lambda>(k, s). (k, f k s)) xs) k = map_option (f k) (map_of xs k)"
  by (induction xs) auto

lemma series_of_converted:
  "series_of (converted L df) k = map_option (convert_series L k) (series_of df k)"
  by (simp add: series_of_def converted_def map_of_map_keyed)

lemma series_of_DataFrame:
  "series_of (DataFrame data) k = Some s \<Longrightarrow> s = infer_series (column_of data k)"
  by (auto simp: series_of_def DataFrame_def dest!: map_of_SomeD)

lemma those_num_None:
  "those (map (num_of_cell L) vs) = None \<longleftrightarrow> \<not> list_all (numeric_parseable L) vs"
  by (induction vs) (auto simp: numeric_parseable_def split: option.splits)

lemma those_date_None:
  "those (map (date_of_cell L) vs) = None \<longleftrightarrow> \<not> list_all (date_parseable L) vs"
  by (induction vs) (auto simp: date_parseable_def split: option.splits)

lemma those_map_Some_length: "those (map f xs) = Some ys \<Longrightarrow> length ys = length xs"
  by (induction xs arbitrary: ys) (auto split: option.splits)

lemma length_infer_series: "length (vals (infer_series vs)) = length vs"
  by (simp add: infer_series_def)

lemma numeric_infer_series_Num: "is_numeric_dtype (dtype (infer_series (map Num ns)))"
  by (simp add: infer_series_def list_all_iff)

lemma dtype_infer_series_cases:
  "dtype (infer_series vs) = Object \<or> is_numeric_dtype (dtype (infer_series vs))"
  by (simp add: infer_series_def)

lemma num_cell_date_parseable: "is_num_cell c \<Longrightarrow> date_parseable L c"
proof (cases c)
  case (Num n)
  then show ?thesis by (cases n) (simp_all add: date_parseable_def)
qed simp_all

lemma as_float_num: "is_num_cell (as_float c) = is_num_cell c"
  by (cases c rule: as_float.cases) simp_all

lemma as_float_parseable: "numeric_parseable L (as_float c) = numeric_parseable L c"
  by (cases c rule: as_float.cases) (simp_all add: numeric_parseable_def)

lemma vals_infer_series_parseable:
  "list_all (numeric_parseable L) (vals (infer_series vs)) = list_all (numeric_parseable L) vs"
  by (simp add: infer_series_def list_all_iff as_float_parseable)

lemma all_num_infer_series_Num: "list_all is_num_cell (vals (infer_series (map Num ns)))"
  by (simp add: infer_series_def list_all_iff as_float_num)

lemma numeric_step_all:
  assumes "list_all (numeric_parseable L) vs"
  shows "is_numeric_dtype (dtype (numeric_step L (infer_series vs)))"
proof (cases "dtype (infer_series vs) = Object")
  case True
  have "those (map (num_of_cell L) (vals (infer_series vs))) \<noteq> None"
    using assms by (simp only: those_num_None vals_infer_series_parseable simp_thms)
  then obtain ns where "those (map (num_of_cell L) (vals (infer_series vs))) = Some ns"
    by blast
  then show ?thesis
    using True by (simp add: numeric_step_def to_numeric_ignore_def numeric_infer_series_Num)
next
  case False
  then show ?thesis
    using dtype_infer_series_cases [of vs] by (simp add: numeric_step_def)
qed

lemma numeric_step_some_fails:
  assumes "\<not> list_all (numeric_parseable L) (vals s)"
  shows "numeric_step L s = s"
proof -
  have "those (map (num_of_cell L) (vals s)) = None"
    using assms by (simp only: those_num_None simp_thms)
  then show ?thesis by (simp add: numeric_step_def to_numeric_ignore_def)
qed

lemma numeric_step_cases:
  "numeric_step L s = s \<or> (\<exists>ns. numeric_step L s = infer_series (map Num ns))"
  by (auto simp: numeric_step_def to_numeric_ignore_def split: option.splits)

lemma length_numeric_step: "length (vals (numeric_step L s)) = length (vals s)"
  by (auto simp: numeric_step_def to_numeric_ignore_def length_infer_series
      split: option.splits dest: those_map_Some_length)

lemma length_date_step: "length (vals (date_step L k s)) = length (vals s)"
  by (auto simp: date_step_def to_datetime_ignore_def split: option.splits
      dest: those_map_Some_length)

lemma length_convert_series: "length (vals (convert_series L k s)) = length (vals s)"
  by (simp add: convert_series_def length_date_step length_numeric_step)

lemma date_step_not_name: "\<not> is_date_name k \<Longrightarrow> date_step L k s = s"
  by (simp add: date_step_def)

lemma date_step_some_fails:
  assumes "\<not> list_all (date_parseable L) (vals s)"
  shows "date_step L k s = s"
proof -
  have "those (map (date_of_cell L) (vals s)) = None"
    using assms by (simp only: those_date_None simp_thms)
  then show ?thesis by (simp add: date_step_def to_datetime_ignore_def)
qed

lemma date_step_all:
  assumes "is_date_name k" "list_all (date_parseable L) (vals s)"
  shows "dtype (date_step L k s) = Datetime64 \<and> list_all is_date_cell (vals (date_step L k s))"
proof -
  have "those (map (date_of_cell L) (vals s)) \<noteq> None"
    using assms(2) by (simp only: those_date_None simp_thms)
  then obtain ds where "those (map (date_of_cell L) (vals s)) = Some ds"
    by blast
  then show ?thesis
    using assms(1) by (simp add: date_step_def to_datetime_ignore_def list_all_iff)
qed

lemma numeric_step_keeps_date_parseable:
  assumes "list_all (date_parseable L) (vals s)"
  shows "list_all (date_parseable L) (vals (numeric_step L s))"
proof -
  consider "numeric_step L s = s" | ns where "numeric_step L s = infer_series (map Num ns)"
    using numeric_step_cases by blast
  then show ?thesis
  proof cases
    case 1
    then show ?thesis using assms by simp
  next
    case 2
    then show ?thesis
      using all_num_infer_series_Num [of ns]
      by (auto simp: list_all_iff intro: num_cell_date_parseable)
  qed
qed

lemma convert_series_date:
  assumes "is_date_name k" "list_all (date_parseable L) (vals s)"
  shows "dtype (convert_series L k s) = Datetime64 \<and>
         list_all is_date_cell (vals (convert_series L k s))"
  unfolding convert_series_def
  using date_step_all [OF assms(1) numeric_step_keeps_date_parseable [OF assms(2)]] .

lemma well_formed_DataFrame: "well_formed (DataFrame data)"
  by (simp add: well_formed_def DataFrame_def list_all_iff length_infer_series column_of_def)

lemma well_formed_converted: "well_formed df \<Longrightarrow> well_formed (converted L df)"
  by (auto simp: well_formed_def converted_def list_all_iff length_convert_series)

subsection \<open>The empty sheet, the cache and failures\<close>

lemma DataFrame_Nil: "DataFrame [] = \<lparr>index = 0, cols = []\<rparr>"
  by (simp add: DataFrame_def all_keys_def)

lemma auto_convert_Nil:
  "auto_convert L \<lparr>index = 0, cols = []\<rparr> = Inr \<lparr>index = 0, cols = []\<rparr>"
  by (simp add: auto_convert_def columns_def)

lemma cache_data_not_fresh:
  "\<not> fresh c k now \<Longrightarrow> cache_data 300 f now c k = (f k, c(k \<mapsto> (f k, now)))"
  by (auto simp: cache_data_def fresh_def split: option.splits)

lemma cache_data_entry:
  "cache_data 300 f now c k = (r, c') \<Longrightarrow> \<exists>stored. c' k = Some (r, stored)"
  by (auto simp: cache_data_def split: option.splits if_splits)

lemma load_data_fails:
  assumes "service_account B = Inr client"
    and "fetch_and_convert L B client url name = Inl e"
  shows "load_data L B url name = ([StError (''Error loading data: '' @ str_exn e)], None)"
  using assms by (simp add: load_data_def connect_to_gsheet_def)

lemma cache_data_miss_result:
  assumes "\<not> fresh c k now" "cache_data 300 f now c k = (r, c')"
  shows "r = f k \<and> c' k = Some (r, now)"
proof -
  have "(f k, c(k \<mapsto> (f k, now))) = (r, c')"
    using cache_data_not_fresh [OF assms(1), of f] assms(2) by simp
  then have "r = f k" "c' = c(k \<mapsto> (f k, now))" by auto
  then show ?thesis by simp
qed

lemma cache_data_hit:
  assumes "c k = Some (r, stored)" "now < stored + 300"
  shows "cache_data 300 f now c k = (r, c)"
  using assms by (simp add: cache_data_def)

lemma fresh_entry:
  "c k = Some (r, stored) \<Longrightarrow> fresh c k now = (now < stored + 300)"
  by (simp add: fresh_def)

lemma cache_data_after_clear:
  "cache_data 300 f now (cache_data_clear c) k = (f k, [k \<mapsto> (f k, now)])"
  by (simp add: cache_data_def cache_data_clear_def)


subsection \<open>Labels, the scenario and a successful load\<close>

lemma take_prefix_iff: "take (length sub) s = sub \<longleftrightarrow> (\<exists>post. s = sub @ post)"
proof
  assume "take (length sub) s = sub"
  then have "s = sub @ drop (length sub) s" by (metis append_take_drop_id)
  then show "\<exists>post. s = sub @ post" ..
next
  assume "\<exists>post. s = sub @ post"
  then show "take (length sub) s = sub" by auto
qed

lemma contains_iff: "contains sub s \<longleftrightarrow> (\<exists>pre post. s = pre @ sub @ post)"
proof (induction s)
  case Nil
  then show ?case by auto
next
  case (Cons c cs)
  have "(\<exists>pre post. c # cs = pre @ sub @ post)
      \<longleftrightarrow> (\<exists>post. c # cs = sub @ post) \<or> (\<exists>pre post. cs = pre @ sub @ post)"
  proof
    assume "\<exists>pre post. c # cs = pre @ sub @ post"
    then obtain pre post where e: "c # cs = pre @ sub @ post" by blast
    show "(\<exists>post. c # cs = sub @ post) \<or> (\<exists>pre post. cs = pre @ sub @ post)"
    proof (cases pre)
      case Nil
      then show ?thesis using e by auto
    next
      case (Cons p ps)
      then have "cs = ps @ sub @ post" using e by simp
      then show ?thesis by blast
    qed
  next
    assume "(\<exists>post. c # cs = sub @ post) \<or> (\<exists>pre post. cs = pre @ sub @ post)"
    then show "\<exists>pre post. c # cs = pre @ sub @ post"
    proof
      assume "\<exists>post. c # cs = sub @ post"
      then obtain post where "c # cs = [] @ sub @ post" by auto
      then show ?thesis by blast
    next
      assume "\<exists>pre post. cs = pre @ sub @ post"
      then obtain pre post where "c # cs = (c # pre) @ sub @ post" by auto
      then show ?thesis by blast
    qed
  qed
  then show ?case
    using Cons.IH take_prefix_iff [of sub "c # cs"] by (simp del: take_Suc_Cons)
qed

lemma is_date_name_iff:
  "is_date_name col \<longleftrightarrow>
     (\<exists>pre post. lower col = pre @ ''tanggal'' @ post \<or> lower col = pre @ ''date'' @ post)"
  unfolding is_date_name_def contains_iff by blast

lemma is_date_name_Tanggal: "is_date_name ''Tanggal''"
  by (simp add: is_date_name_def lower_def lower_char_def)

lemma not_date_name_Penjualan: "\<not> is_date_name ''Penjualan''"
  by (simp add: is_date_name_def lower_def lower_char_def)

lemma DataFrame_scenario:
  "DataFrame scenario_rows =
     \<lparr>index = 2,
      cols =
        [(''Tanggal'', \<lparr>dtype = Object, vals = [Str ''2024-01-01'', Str ''2024-01-02'']\<rparr>),
         (''Penjualan'', \<lparr>dtype = Int64, vals = [Num (PyInt 5000000), Num (PyInt 7500000)]\<rparr>),
         (''Produk'', \<lparr>dtype = Object, vals = [Str ''Laptop'', Str ''Mouse'']\<rparr>)]\<rparr>"
  by (simp add: DataFrame_def scenario_rows_def all_keys_def column_of_def infer_series_def)

lemma load_data_ok:
  assumes "service_account B = Inr client"
    and "open_by_url B client url = Inr sheet"
    and "worksheet B sheet name = Inr ws"
    and "get_all_records B ws = Inr data"
  shows "load_data L B url name = ([], Some (converted L (DataFrame data)))"
  using assms
  by (simp add: load_data_def connect_to_gsheet_def fetch_and_convert_def
      auto_convert_DataFrame)

lemma load_data_one_sheet:
  "load_data L (one_sheet url name data) url name = ([], Some (converted L (DataFrame data)))"
  by (rule load_data_ok [where client = "()" and sheet = "()" and ws = "()"])
    (simp_all add: one_sheet_def)

subsection \<open>The reader reads back what the writer wrote\<close>

lemma comma_not_newline:
  "comma \<noteq> newline" "comma \<noteq> dquote" "newline \<noteq> dquote"
  "newline \<noteq> comma" "dquote \<noteq> comma" "dquote \<noteq> newline"
  by (simp_all add: comma_def newline_def dquote_def)

lemma special_simps: "special comma" "special newline" "special dquote"
  by (simp_all add: special_def)

lemma parse_unquoted:
  assumes "\<not> list_ex special g" "sep = comma \<or> sep = newline"
  shows "parse Unquoted acc row (g @ sep # rest) = next_field row (acc @ g) sep rest"
  using assms
proof (induction g arbitrary: acc)
  case Nil
  then show ?case by (auto simp: next_field_def comma_not_newline)
next
  case (Cons x g)
  then have x: "x \<noteq> comma" "x \<noteq> newline" by (auto simp: special_def)
  have "parse Unquoted acc row ((x # g) @ sep # rest) = parse Unquoted (acc @ [x]) row (g @ sep # rest)"
    using x by simp
  also have "\<dots> = next_field row ((acc @ [x]) @ g) sep rest"
    using Cons by simp
  finally show ?case by simp
qed

lemma parse_quoted:
  assumes "sep = comma \<or> sep = newline"
  shows "parse Quoted acc row (escape g @ dquote # sep # rest) = next_field row (acc @ g) sep rest"
  using assms
proof (induction g arbitrary: acc)
  case Nil
  then show ?case by (auto simp: next_field_def comma_not_newline)
next
  case (Cons x g)
  show ?case
  proof (cases "x = dquote")
    case True
    have "parse Quoted acc row (escape (x # g) @ dquote # sep # rest)
        = parse Quoted (acc @ [dquote]) row (escape g @ dquote # sep # rest)"
      using True by simp
    also have "\<dots> = next_field row ((acc @ [dquote]) @ g) sep rest"
      using Cons by simp
    finally show ?thesis using True by simp
  next
    case False
    have "parse Quoted acc row (escape (x # g) @ dquote # sep # rest)
        = parse Quoted (acc @ [x]) row (escape g @ dquote # sep # rest)"
      using False by simp
    also have "\<dots> = next_field row ((acc @ [x]) @ g) sep rest"
      using Cons by simp
    finally show ?thesis by simp
  qed
qed

lemma parse_field:
  assumes "sep = comma \<or> sep = newline"
  shows "parse FieldStart [] row (csv_field f @ sep # rest) = next_field row f sep rest"
proof (cases "list_ex special f")
  case True
  then show ?thesis
    using parse_quoted [OF assms, of "[]" row f rest] by (simp add: csv_field_def)
next
  case False
  show ?thesis
  proof (cases f)
    case Nil
    then show ?thesis
      using assms False by (auto simp: csv_field_def next_field_def comma_not_newline)
  next
    case (Cons x g)
    then have x: "\<not> special x" and g: "\<not> list_ex special g" using False by auto
    then have "x \<noteq> dquote" "x \<noteq> comma" "x \<noteq> newline" by (auto simp: special_def)
    then have "parse FieldStart [] row (csv_field f @ sep # rest)
        = parse Unquoted [x] row (g @ sep # rest)"
      using False Cons by (simp add: csv_field_def)
    then show ?thesis
      using parse_unquoted [OF g assms, of "[x]" row rest] Cons by simp
  qed
qed

lemma parse_join:
  "fs \<noteq> [] \<Longrightarrow>
   parse FieldStart [] row (join_fields fs @ newline # rest)
     = (row @ fs) # parse FieldStart [] [] rest"
proof (induction fs arbitrary: row rule: join_fields.induct)
  case 1
  then show ?case by simp
next
  case (2 f)
  show ?case
    using parse_field [of newline row f rest]
    by (simp add: next_field_def comma_not_newline)
next
  case (3 f g fs)
  have "parse FieldStart [] row (join_fields (f # g # fs) @ newline # rest)
      = parse FieldStart [] row (csv_field f @ comma # (join_fields (g # fs) @ newline # rest))"
    by simp
  also have "\<dots> = parse FieldStart [] (row @ [f]) (join_fields (g # fs) @ newline # rest)"
    using parse_field [of comma row f] by (simp add: next_field_def)
  also have "\<dots> = ((row @ [f]) @ g # fs) # parse FieldStart [] [] rest"
    using "3.IH" by simp
  finally show ?case by simp
qed

lemma parse_writerow:
  assumes "fs \<noteq> []"
  shows "parse FieldStart [] [] (writerow fs @ rest) = fs # parse FieldStart [] [] rest"
proof (cases "fs = [[]]")
  case True
  then show ?thesis by (simp add: writerow_def comma_not_newline)
next
  case False
  then show ?thesis
    using parse_join [OF assms, of "[]" rest] by (simp add: writerow_def)
qed

lemma parse_rows:
  "list_all (\<lambda>fs. fs \<noteq> []) rs \<Longrightarrow>
   parse FieldStart [] [] (concat (map writerow rs) @ rest) = rs @ parse FieldStart [] [] rest"
proof (induction rs)
  case Nil
  then show ?case by simp
next
  case (Cons fs rs)
  then show ?case by (simp add: parse_writerow)
qed

lemma parse_csv_to_csv:
  assumes "cols df \<noteq> []"
  shows "parse_csv (to_csv L df) = columns df # map (map (cell_to_str L)) (rows df)"
proof -
  have h: "columns df \<noteq> []" using assms by (simp add: columns_def)
  have r: "list_all (\<lambda>fs. fs \<noteq> []) (map (map (cell_to_str L)) (rows df))"
    using assms by (simp add: list_all_iff rows_def row_at_def)
  have "parse_csv (to_csv L df)
      = columns df # parse FieldStart [] []
          (concat (map writerow (map (map (cell_to_str L)) (rows df))) @ [])"
    unfolding parse_csv_def to_csv_def using parse_writerow [OF h] by (simp add: comp_def)
  also have "\<dots> = columns df # (map (map (cell_to_str L)) (rows df) @ parse FieldStart [] [] [])"
    by (simp only: parse_rows [OF r, of "[]"])
  finally show ?thesis by simp
qed

lemma load_data_Some:
  assumes "load_data L B url name = (out, Some d)"
  shows "\<exists>data. d = converted L (DataFrame data)"
  using assms
  by (auto simp: load_data_def connect_to_gsheet_def fetch_and_convert_def
      auto_convert_DataFrame split: sum.splits)

lemma length_rows: "length (rows df) = index df"
  by (simp add: rows_def)

subsection \<open>The countdown\<close>

lemma cached_load_miss:
  "\<not> fresh c (u, n) now \<Longrightarrow>
   cached_load_data L B now c u n
     = (load_data L B u n, c((u, n) \<mapsto> (load_data L B u n, now)))"
  by (simp add: cached_load_data_def cache_data_not_fresh)

lemma not_empty_scenario: "\<not> empty_df (converted L (DataFrame scenario_rows))"
  by (simp add: empty_df_def converted_def DataFrame_scenario)

lemma range_down_rev: "range_down n = rev [1..<Suc n]"
  by (induction n) simp_all

lemma countdown_loop_concat:
  "countdown_loop xs =
     concat (map (\<lambda>seconds.
        [PlaceholderText (''Refresh berikutnya dalam: '' @ fmt02 (seconds div 60) @ '':''
           @ fmt02 (seconds mod 60)),
         Sleep 1]) xs)"
  by (induction xs) simp_all

lemma countdown_loop_sleeps:
  "length (filter (\<lambda>e. e = Sleep 1) (countdown_loop xs)) = length xs"
  by (induction xs) simp_all

lemma length_range_down: "length (range_down n) = n"
  by (induction n) simp_all

section \<open>The claims\<close>

text \<open>
  Claim C1, as amended. The claim as stated fails for a column of numbers whose label is
  a date label: the date attempt that follows turns it into timestamps
  (the third theorem below). What holds for every column \<open>k\<close> of the
  frame built from the fetched records, with \<open>s\<close> its series before the loop: the loop
  returns and leaves \<open>k\<close> the date attempt of the numeric attempt of \<open>s\<close>; when every
  value of \<open>s\<close> is numeric-parseable, the series has a numeric dtype after the numeric
  attempt, and after the whole loop too unless the label is a date label; when some value
  is not numeric-parseable, the numeric attempt returns \<open>s\<close> itself.
\<close>

theorem numeric_attempt:
  assumes "series_of (DataFrame data) k = Some s"
  shows "auto_convert L (DataFrame data) = Inr (converted L (DataFrame data)) \<and>
         series_of (converted L (DataFrame data)) k = Some (date_step L k (numeric_step L s)) \<and>
         (list_all (numeric_parseable L) (vals s) \<longrightarrow>
            is_numeric_dtype (dtype (numeric_step L s)) \<and>
            (\<not> is_date_name k \<longrightarrow> is_numeric_dtype (dtype (date_step L k (numeric_step L s))))) \<and>
         (\<not> list_all (numeric_parseable L) (vals s) \<longrightarrow> numeric_step L s = s)"
proof -
  have s: "s = infer_series (column_of data k)"
    using assms by (rule series_of_DataFrame)
  have 1: "series_of (converted L (DataFrame data)) k = Some (date_step L k (numeric_step L s))"
    using assms by (simp add: series_of_converted convert_series_def)
  have 2: "is_numeric_dtype (dtype (numeric_step L s))"
    if "list_all (numeric_parseable L) (vals s)"
  proof -
    have "list_all (numeric_parseable L) (column_of data k)"
      using that unfolding s by (simp only: vals_infer_series_parseable)
    then show ?thesis unfolding s by (rule numeric_step_all)
  qed
  have 3: "is_numeric_dtype (dtype (date_step L k (numeric_step L s)))"
    if "list_all (numeric_parseable L) (vals s)" "\<not> is_date_name k"
    using 2 [OF that(1)] that(2) by (simp add: date_step_not_name)
  have 4: "numeric_step L s = s" if "\<not> list_all (numeric_parseable L) (vals s)"
    using that by (rule numeric_step_some_fails)
  show ?thesis
    using auto_convert_DataFrame [of L data] 1 2 3 4 by blast
qed

theorem numeric_attempt_witness:
  "series_of (DataFrame [[(''Harga'', Str ''12'')], [(''Harga'', Str ''-7'')]]) ''Harga''
     = Some \<lparr>dtype = Object, vals = [Str ''12'', Str ''-7'']\<rparr> \<and>
   list_all (numeric_parseable plain_pandas) [Str ''12'', Str ''-7''] \<and>
   \<not> is_date_name ''Harga'' \<and>
   is_numeric_dtype (dtype (date_step plain_pandas ''Harga''
      (numeric_step plain_pandas \<lparr>dtype = Object, vals = [Str ''12'', Str ''-7'']\<rparr>)))"
proof -
  have a: "series_of (DataFrame [[(''Harga'', Str ''12'')], [(''Harga'', Str ''-7'')]]) ''Harga''
     = Some \<lparr>dtype = Object, vals = [Str ''12'', Str ''-7'']\<rparr>"
    by (simp add: series_of_def DataFrame_def all_keys_def column_of_def infer_series_def)
  have b: "list_all (numeric_parseable plain_pandas) [Str ''12'', Str ''-7'']"
    by (simp add: numeric_parseable_def plain_pandas_def read_int_def read_nat_def digit_val_def)
  have c: "\<not> is_date_name ''Harga''"
    by (simp add: is_date_name_def lower_def lower_char_def)
  show ?thesis
    using numeric_attempt [OF a, of plain_pandas] a b c by simp
qed

theorem numeric_attempt_counterexample:
  "series_of (DataFrame [[(''Tanggal'', Num (PyInt 20240101))]]) ''Tanggal''
     = Some \<lparr>dtype = Int64, vals = [Num (PyInt 20240101)]\<rparr> \<and>
   list_all (numeric_parseable plain_pandas) [Num (PyInt 20240101)] \<and>
   load_data plain_pandas (one_sheet ''u'' ''Sheet1'' [[(''Tanggal'', Num (PyInt 20240101))]])
       ''u'' ''Sheet1''
     = ([], Some \<lparr>index = 1,
                   cols = [(''Tanggal'', \<lparr>dtype = Datetime64, vals = [Date (At 20240101)]\<rparr>)]\<rparr>) \<and>
   \<not> is_numeric_dtype Datetime64"
proof -
  have d: "DataFrame [[(''Tanggal'', Num (PyInt 20240101))]]
      = \<lparr>index = 1, cols = [(''Tanggal'', \<lparr>dtype = Int64, vals = [Num (PyInt 20240101)]\<rparr>)]\<rparr>"
    by (simp add: DataFrame_def all_keys_def column_of_def infer_series_def)
  have c: "convert_series plain_pandas ''Tanggal'' \<lparr>dtype = Int64, vals = [Num (PyInt 20240101)]\<rparr>
      = \<lparr>dtype = Datetime64, vals = [Date (At 20240101)]\<rparr>"
    by (simp add: convert_series_def numeric_step_def date_step_def is_date_name_Tanggal
        to_datetime_ignore_def)
  show ?thesis
    by (simp add: load_data_one_sheet d converted_def c series_of_def numeric_parseable_def)
qed

text \<open>
  Claim C2. For every column \<open>k\<close> of the frame built from the fetched records, with
  \<open>s\<close> its series before the loop: when the label contains "tanggal" or "date" in any
  case (\<open>is_date_name\<close>, see \<open>is_date_name_iff\<close>) and every value is date-parseable,
  the column ends with dtype datetime64 and holds timestamps only; when the label does
  not match, or some value of what the date attempt receives is not date-parseable, the
  date attempt returns its input unchanged.
\<close>

theorem date_attempt:
  assumes "series_of (DataFrame data) k = Some s"
  shows "auto_convert L (DataFrame data) = Inr (converted L (DataFrame data)) \<and>
         series_of (converted L (DataFrame data)) k = Some (date_step L k (numeric_step L s)) \<and>
         (is_date_name k \<and> list_all (date_parseable L) (vals s) \<longrightarrow>
            dtype (date_step L k (numeric_step L s)) = Datetime64 \<and>
            list_all is_date_cell (vals (date_step L k (numeric_step L s)))) \<and>
         (\<not> is_date_name k \<or> \<not> list_all (date_parseable L) (vals (numeric_step L s)) \<longrightarrow>
            date_step L k (numeric_step L s) = numeric_step L s)"
proof -
  have 1: "series_of (converted L (DataFrame data)) k = Some (date_step L k (numeric_step L s))"
    using assms by (simp add: series_of_converted convert_series_def)
  have 2: "dtype (date_step L k (numeric_step L s)) = Datetime64 \<and>
           list_all is_date_cell (vals (date_step L k (numeric_step L s)))"
    if "is_date_name k" "list_all (date_parseable L) (vals s)"
    using convert_series_date [OF that] by (simp add: convert_series_def)
  have 3: "date_step L k (numeric_step L s) = numeric_step L s"
    if "\<not> is_date_name k \<or> \<not> list_all (date_parseable L) (vals (numeric_step L s))"
    using that date_step_not_name date_step_some_fails by blast
  show ?thesis
    using auto_convert_DataFrame [of L data] 1 2 3 by blast
qed

theorem date_attempt_witness:
  "series_of (DataFrame scenario_rows) ''Tanggal''
     = Some \<lparr>dtype = Object, vals = [Str ''2024-01-01'', Str ''2024-01-02'']\<rparr> \<and>
   is_date_name ''Tanggal'' \<and>
   list_all (date_parseable plain_pandas) [Str ''2024-01-01'', Str ''2024-01-02''] \<and>
   dtype (date_step plain_pandas ''Tanggal''
      (numeric_step plain_pandas
         \<lparr>dtype = Object, vals = [Str ''2024-01-01'', Str ''2024-01-02'']\<rparr>)) = Datetime64"
proof -
  have a: "series_of (DataFrame scenario_rows) ''Tanggal''
     = Some \<lparr>dtype = Object, vals = [Str ''2024-01-01'', Str ''2024-01-02'']\<rparr>"
    by (simp add: DataFrame_scenario series_of_def)
  have b: "list_all (date_parseable plain_pandas) [Str ''2024-01-01'', Str ''2024-01-02'']"
    by (simp add: date_parseable_def plain_pandas_def read_iso_date_def read_nat_def
        digit_val_def days_in_month_def)
  show ?thesis
    using date_attempt [OF a, of plain_pandas] a b is_date_name_Tanggal by simp
qed


text \<open>
  Claim C3. When the spreadsheet cannot be opened, the worksheet cannot be found or the
  records cannot be fetched (each an exception \<open>e\<close> of gspread), \<^verbatim>\<open>load_data\<close> shows one
  error message built from \<open>e\<close> and returns \<^verbatim>\<open>None\<close>: nothing propagates. A run of the
  script that calls it (a URL was entered, the refresh button is not pressed, no fresh
  cache entry answers instead) shows that message and the caller's own error message, and
  nothing else: no table.
\<close>

theorem fetch_failure_is_one_error:
  assumes "service_account B = Inr client"
    and "open_by_url B client url = Inl e \<or>
         (\<exists>sheet. open_by_url B client url = Inr sheet \<and>
            (worksheet B sheet name = Inl e \<or>
             (\<exists>ws. worksheet B sheet name = Inr ws \<and> get_all_records B ws = Inl e)))"
  shows "load_data L B url name = ([StError (''Error loading data: '' @ str_exn e)], None) \<and>
         (url \<noteq> [] \<and> \<not> refresh_now w \<and> \<not> fresh c (url, name) now \<longrightarrow>
            fst (script L B (w\<lparr>sheet_url := url, sheet_name := name\<rparr>) now c)
              = [StError (''Error loading data: '' @ str_exn e),
                 StError ''Gagal memuat data. Cek URL dan permissions!''])"
proof -
  have f: "fetch_and_convert L B client url name = Inl e"
    using assms(2) by (auto simp: fetch_and_convert_def)
  have l: "load_data L B url name = ([StError (''Error loading data: '' @ str_exn e)], None)"
    using load_data_fails [OF assms(1) f] .
  show ?thesis
    using l by (simp add: script_def cached_load_data_def cache_data_not_fresh)
qed

theorem fetch_failure_is_one_error_witness:
  "load_data plain_pandas (one_sheet ''u'' ''Sheet1'' scenario_rows) ''u'' ''Sheet2''
     = ([StError ''Error loading data: WorksheetNotFound''], None) \<and>
   fst (script plain_pandas (one_sheet ''u'' ''Sheet1'' scenario_rows)
          (some_widgets\<lparr>sheet_url := ''u'', sheet_name := ''Sheet2''\<rparr>) 0 Map.empty)
     = [StError ''Error loading data: WorksheetNotFound'',
        StError ''Gagal memuat data. Cek URL dan permissions!'']"
proof -
  let ?B = "one_sheet ''u'' ''Sheet1'' scenario_rows"
  have a: "service_account ?B = Inr ()" by (simp add: one_sheet_def)
  have b: "open_by_url ?B () ''u'' = Inl (Exn ''WorksheetNotFound'') \<or>
         (\<exists>sheet. open_by_url ?B () ''u'' = Inr sheet \<and>
            (worksheet ?B sheet ''Sheet2'' = Inl (Exn ''WorksheetNotFound'') \<or>
             (\<exists>ws. worksheet ?B sheet ''Sheet2'' = Inr ws \<and>
                get_all_records ?B ws = Inl (Exn ''WorksheetNotFound''))))"
    by (simp add: one_sheet_def)
  have n: "\<not> fresh (Map.empty :: cache) (''u'', ''Sheet2'') 0" by (simp add: fresh_def)
  have r: "\<not> refresh_now some_widgets" by (simp add: some_widgets_def)
  show ?thesis
    using fetch_failure_is_one_error [OF a b, of plain_pandas some_widgets Map.empty 0] n r
    by simp
qed

text \<open>
  Claim C4. After any call of the cached loader for a locator and sheet name, a second
  call for the same pair inside the freshness window of the entry that answered the
  first returns the same result and leaves the cache as it was, whatever the service
  holds by then. When the first call had to fetch, the window is the 300 seconds that
  follow it. After \<^verbatim>\<open>st.cache_data.clear()\<close> the next call fetches again.
\<close>

theorem repeated_load_within_window:
  assumes "cached_load_data L B t1 c0 url name = (r1, c1)"
  shows "(fresh c1 (url, name) t2 \<longrightarrow> cached_load_data L' B' t2 c1 url name = (r1, c1)) \<and>
         (\<not> fresh c0 (url, name) t1 \<longrightarrow>
            r1 = load_data L B url name \<and> (t2 < t1 + 300 \<longrightarrow> fresh c1 (url, name) t2)) \<and>
         cached_load_data L' B' t2 (cache_data_clear c1) url name
           = (load_data L' B' url name,
              [(url, name) \<mapsto> (load_data L' B' url name, t2)])"
proof -
  let ?f = "\<lambda>(u, n). load_data L B u n"
  let ?k = "(url, name)"
  have a: "cache_data 300 ?f t1 c0 ?k = (r1, c1)"
    using assms unfolding cached_load_data_def .
  obtain stored where s: "c1 ?k = Some (r1, stored)"
    using cache_data_entry [OF a] ..
  have 1: "cached_load_data L' B' t2 c1 url name = (r1, c1)" if "fresh c1 ?k t2"
  proof -
    have "t2 < stored + 300" using that s by (simp add: fresh_entry)
    then show ?thesis
      unfolding cached_load_data_def
      using cache_data_hit [of c1 "(url, name)" r1 stored t2] s by blast
  qed
  have 2: "r1 = load_data L B url name \<and> (t2 < t1 + 300 \<longrightarrow> fresh c1 ?k t2)"
    if "\<not> fresh c0 ?k t1"
  proof -
    have m: "r1 = ?f ?k \<and> c1 ?k = Some (r1, t1)"
      using cache_data_miss_result [OF that a] .
    then show ?thesis by (simp add: fresh_entry)
  qed
  have 3: "cached_load_data L' B' t2 (cache_data_clear c1) url name
           = (load_data L' B' url name,
              [(url, name) \<mapsto> (load_data L' B' url name, t2)])"
    unfolding cached_load_data_def by (simp only: cache_data_after_clear prod.case)
  show ?thesis using 1 2 3 by blast
qed

theorem repeated_load_within_window_witness:
  "cached_load_data plain_pandas (one_sheet ''u'' ''Sheet1'' []) 299
     (snd (cached_load_data plain_pandas (one_sheet ''u'' ''Sheet1'' scenario_rows) 0
        Map.empty ''u'' ''Sheet1'')) ''u'' ''Sheet1''
   = cached_load_data plain_pandas (one_sheet ''u'' ''Sheet1'' scenario_rows) 0
        Map.empty ''u'' ''Sheet1''"
proof -
  let ?B = "one_sheet ''u'' ''Sheet1'' scenario_rows"
  obtain r1 c1 where
    e: "cached_load_data plain_pandas ?B 0 Map.empty ''u'' ''Sheet1'' = (r1, c1)"
    by (cases "cached_load_data plain_pandas ?B 0 Map.empty ''u'' ''Sheet1''")
  have n: "\<not> fresh (Map.empty :: cache) (''u'', ''Sheet1'') 0" by (simp add: fresh_def)
  note th = repeated_load_within_window [OF e, of 299 plain_pandas "one_sheet ''u'' ''Sheet1'' []"]
  from th n have "fresh c1 (''u'', ''Sheet1'') 299" by simp
  with th have "cached_load_data plain_pandas (one_sheet ''u'' ''Sheet1'' []) 299 c1
      ''u'' ''Sheet1'' = (r1, c1)" by simp
  then show ?thesis by (simp only: e snd_conv)
qed

text \<open>
  Claim C5. For every frame \<^verbatim>\<open>load_data\<close> returns that is not empty (the only frames
  the page exports): the text of \<^verbatim>\<open>to_csv\<close>, read back, is the list of the labels followed
  by one record per row, each cell the string pandas prints for it, in the order of the
  columns; there are as many such records as rows, every column has a value for every
  row, and the data of the download button is \<^verbatim>\<open>to_csv\<close> of that very frame, whatever
  the number of rows shown in the table.
\<close>

theorem export_round_trip:
  assumes "load_data L B url name = (out, Some d)"
    and "\<not> empty_df d"
  shows "parse_csv (to_csv L d) = columns d # map (map (cell_to_str L)) (rows d) \<and>
         length (rows d) = index d \<and>
         well_formed d \<and>
         DownloadButton ''Download CSV'' (to_csv L d) (''data_'' @ today w @ ''.csv'') ''text/csv''
           \<in> set (show_data L w d)"
proof -
  have c: "cols d \<noteq> []" using assms(2) by (simp add: empty_df_def)
  obtain data where "d = converted L (DataFrame data)"
    using load_data_Some [OF assms(1)] ..
  then have wf: "well_formed d"
    by (simp add: well_formed_converted well_formed_DataFrame)
  show ?thesis
    using parse_csv_to_csv [OF c, of L] wf by (simp add: length_rows show_data_def)
qed

theorem export_round_trip_witness:
  "parse_csv (to_csv plain_pandas (converted plain_pandas (DataFrame scenario_rows)))
     = [[''Tanggal'', ''Penjualan'', ''Produk''],
        [''1704067200000000000'', ''5000000'', ''Laptop''],
        [''1704153600000000000'', ''7500000'', ''Mouse'']]"
proof -
  let ?d = "converted plain_pandas (DataFrame scenario_rows)"
  have l: "load_data plain_pandas (one_sheet ''u'' ''Sheet1'' scenario_rows) ''u'' ''Sheet1''
      = ([], Some ?d)"
    by (rule load_data_one_sheet)
  have d: "?d = \<lparr>index = 2,
      cols =
        [(''Tanggal'', \<lparr>dtype = Datetime64,
            vals = [Date (At 1704067200000000000), Date (At 1704153600000000000)]\<rparr>),
         (''Penjualan'', \<lparr>dtype = Int64, vals = [Num (PyInt 5000000), Num (PyInt 7500000)]\<rparr>),
         (''Produk'', \<lparr>dtype = Object, vals = [Str ''Laptop'', Str ''Mouse'']\<rparr>)]\<rparr>"
    by (simp add: converted_def DataFrame_scenario convert_series_def numeric_step_def
        date_step_def is_date_name_def lower_def lower_char_def to_numeric_ignore_def
        to_datetime_ignore_def plain_pandas_def read_int_def read_nat_def digit_val_def
        read_iso_date_def days_in_month_def leap_year_def days_from_civil_def)
  have r: "map (map (cell_to_str plain_pandas)) (rows ?d)
      = [[''1704067200000000000'', ''5000000'', ''Laptop''],
         [''1704153600000000000'', ''7500000'', ''Mouse'']]"
    unfolding d
    by (simp add: rows_def row_at_def upt_rec plain_pandas_def str_int_def str_nat.simps
        digit_def)
  have c: "columns ?d = [''Tanggal'', ''Penjualan'', ''Produk'']"
    unfolding d by (simp add: columns_def)
  show ?thesis
    using export_round_trip [OF l not_empty_scenario, of some_widgets] r c by simp
qed

text \<open>
  Claim C6. When the sheet resolves and holds zero records, \<^verbatim>\<open>load_data\<close> shows no
  message and returns the empty frame, not \<^verbatim>\<open>None\<close>; the script then shows the
  warning of the empty sheet and no error.
\<close>

theorem empty_sheet_is_no_error:
  assumes "service_account B = Inr client"
    and "open_by_url B client url = Inr sheet"
    and "worksheet B sheet name = Inr ws"
    and "get_all_records B ws = Inr []"
  shows "load_data L B url name = ([], Some \<lparr>index = 0, cols = []\<rparr>) \<and>
         (url \<noteq> [] \<and> \<not> refresh_now w \<and> \<not> fresh c (url, name) now \<longrightarrow>
            fst (script L B (w\<lparr>sheet_url := url, sheet_name := name\<rparr>) now c)
              = [StWarning ''Sheet kosong atau tidak ada data''])"
proof -
  have l: "load_data L B url name = ([], Some \<lparr>index = 0, cols = []\<rparr>)"
    using assms
    by (simp add: load_data_def connect_to_gsheet_def fetch_and_convert_def DataFrame_Nil
        auto_convert_Nil)
  show ?thesis
    using l by (simp add: script_def cached_load_data_def cache_data_not_fresh empty_df_def)
qed

theorem empty_sheet_is_no_error_witness:
  "load_data plain_pandas (one_sheet ''u'' ''Sheet1'' []) ''u'' ''Sheet1''
     = ([], Some \<lparr>index = 0, cols = []\<rparr>) \<and>
   fst (script plain_pandas (one_sheet ''u'' ''Sheet1'' [])
          (some_widgets\<lparr>sheet_url := ''u'', sheet_name := ''Sheet1''\<rparr>) 0 Map.empty)
     = [StWarning ''Sheet kosong atau tidak ada data'']"
proof -
  let ?B = "one_sheet ''u'' ''Sheet1'' []"
  have a: "service_account ?B = Inr ()" by (simp add: one_sheet_def)
  have b: "open_by_url ?B () ''u'' = Inr ()" by (simp add: one_sheet_def)
  have c: "worksheet ?B () ''Sheet1'' = Inr ()" by (simp add: one_sheet_def)
  have d: "get_all_records ?B () = Inr []" by (simp add: one_sheet_def)
  have n: "\<not> fresh (Map.empty :: cache) (''u'', ''Sheet1'') 0" by (simp add: fresh_def)
  have r: "\<not> refresh_now some_widgets" by (simp add: some_widgets_def)
  show ?thesis
    using empty_sheet_is_no_error [OF a b c d, of plain_pandas some_widgets Map.empty 0] n r
    by simp
qed

text \<open>
  Claim C7. When the sheet holds the two records of the scenario, and the date reader of
  pandas accepts the strings 2024-01-01 and 2024-01-02, \<^verbatim>\<open>load_data\<close> shows no message
  and returns a frame of 2 rows and the 3 columns Tanggal, Penjualan, Produk, where
  Tanggal has dtype datetime64 (two timestamps) and Penjualan has dtype int64 with the
  two numbers of the sheet.
\<close>

theorem scenario_two_rows:
  assumes "service_account B = Inr client"
    and "open_by_url B client url = Inr sheet"
    and "worksheet B sheet name = Inr ws"
    and "get_all_records B ws = Inr scenario_rows"
    and "str_to_date L ''2024-01-01'' \<noteq> None"
    and "str_to_date L ''2024-01-02'' \<noteq> None"
  shows "\<exists>df tanggal.
           load_data L B url name = ([], Some df) \<and>
           index df = 2 \<and>
           columns df = [''Tanggal'', ''Penjualan'', ''Produk''] \<and>
           series_of df ''Tanggal'' = Some tanggal \<and>
           dtype tanggal = Datetime64 \<and>
           length (vals tanggal) = 2 \<and>
           list_all is_date_cell (vals tanggal) \<and>
           series_of df ''Penjualan''
             = Some \<lparr>dtype = Int64, vals = [Num (PyInt 5000000), Num (PyInt 7500000)]\<rparr>"
proof -
  let ?df = "converted L (DataFrame scenario_rows)"
  let ?raw = "\<lparr>dtype = Object, vals = [Str ''2024-01-01'', Str ''2024-01-02'']\<rparr>"
  let ?tg = "convert_series L ''Tanggal'' ?raw"
  have l: "load_data L B url name = ([], Some ?df)"
    using assms(1-4) by (rule load_data_ok)
  have i: "index ?df = 2"
    by (simp add: index_converted DataFrame_scenario)
  have c: "columns ?df = [''Tanggal'', ''Penjualan'', ''Produk'']"
    by (simp add: columns_converted) (simp add: DataFrame_scenario columns_def)
  have t: "series_of ?df ''Tanggal'' = Some ?tg"
    by (simp add: series_of_converted) (simp add: DataFrame_scenario series_of_def)
  have p: "list_all (date_parseable L) (vals ?raw)"
    using assms(5,6) by (simp add: date_parseable_def)
  have d: "dtype ?tg = Datetime64 \<and> list_all is_date_cell (vals ?tg)"
    using convert_series_date [OF is_date_name_Tanggal p] .
  have n: "length (vals ?tg) = 2"
    by (simp add: length_convert_series)
  have j: "series_of ?df ''Penjualan''
      = Some \<lparr>dtype = Int64, vals = [Num (PyInt 5000000), Num (PyInt 7500000)]\<rparr>"
    by (simp add: series_of_converted)
      (simp add: DataFrame_scenario series_of_def convert_series_def numeric_step_def
        date_step_def not_date_name_Penjualan)
  show ?thesis
    using l i c t d n j by blast
qed

theorem scenario_two_rows_witness:
  "\<exists>df tanggal.
     load_data plain_pandas (one_sheet ''u'' ''Sheet1'' scenario_rows) ''u'' ''Sheet1''
       = ([], Some df) \<and>
     index df = 2 \<and>
     columns df = [''Tanggal'', ''Penjualan'', ''Produk''] \<and>
     series_of df ''Tanggal'' = Some tanggal \<and>
     dtype tanggal = Datetime64 \<and>
     length (vals tanggal) = 2 \<and>
     list_all is_date_cell (vals tanggal) \<and>
     series_of df ''Penjualan''
       = Some \<lparr>dtype = Int64, vals = [Num (PyInt 5000000), Num (PyInt 7500000)]\<rparr>"
proof -
  let ?B = "one_sheet ''u'' ''Sheet1'' scenario_rows"
  have a: "service_account ?B = Inr ()" by (simp add: one_sheet_def)
  have b: "open_by_url ?B () ''u'' = Inr ()" by (simp add: one_sheet_def)
  have c: "worksheet ?B () ''Sheet1'' = Inr ()" by (simp add: one_sheet_def)
  have d: "get_all_records ?B () = Inr scenario_rows" by (simp add: one_sheet_def)
  have e: "str_to_date plain_pandas ''2024-01-01'' \<noteq> None"
    by (simp add: plain_pandas_def read_iso_date_def read_nat_def digit_val_def
        days_in_month_def)
  have f: "str_to_date plain_pandas ''2024-01-02'' \<noteq> None"
    by (simp add: plain_pandas_def read_iso_date_def read_nat_def digit_val_def
        days_in_month_def)
  show ?thesis
    using scenario_two_rows [OF a b c d e f] .
qed

text \<open>
  Claim C8, as amended. With auto-refresh enabled the countdown runs only in a run that
  loaded a frame that is not empty: on an empty sheet the script shows the warning and
  neither sleeps nor reruns. What holds: in a run where the button is not pressed, a URL
  is entered, auto-refresh is enabled and the loader (cached or not) gave a frame that is
  not empty, the script ends with the countdown, then the clearing of the cache and the
  rerun, and leaves an empty cache. The countdown is a fixed list that depends on nothing
  in the run: for the seconds from 300 down to 1, the text of the time left and a sleep
  of one second; it sleeps exactly 300 times.
\<close>

theorem countdown_then_refresh:
  assumes "\<not> refresh_now w"
    and "sheet_url w \<noteq> []"
    and "auto_refresh w"
    and "cached_load_data L B now c (sheet_url w) (sheet_name w) = ((out, Some d), c')"
    and "\<not> empty_df d"
  shows "script L B w now c
           = (out @ show_data L w d
                @ [StInfo ''Auto-refresh aktif. Data akan diperbarui otomatis setiap 5 menit.'']
                @ countdown @ [CacheDataClear, Rerun],
              Map.empty) \<and>
         countdown
           = concat (map (\<lambda>seconds.
               [PlaceholderText (''Refresh berikutnya dalam: '' @ fmt02 (seconds div 60) @ '':''
                  @ fmt02 (seconds mod 60)),
                Sleep 1]) (rev [1..<301])) \<and>
         length (filter (\<lambda>e. e = Sleep 1) countdown) = 300"
proof -
  have 1: "script L B w now c
           = (out @ show_data L w d
                @ [StInfo ''Auto-refresh aktif. Data akan diperbarui otomatis setiap 5 menit.'']
                @ countdown @ [CacheDataClear, Rerun],
              Map.empty)"
    using assms by (simp add: script_def cache_data_clear_def)
  have 2: "countdown
           = concat (map (\<lambda>seconds.
               [PlaceholderText (''Refresh berikutnya dalam: '' @ fmt02 (seconds div 60) @ '':''
                  @ fmt02 (seconds mod 60)),
                Sleep 1]) (rev [1..<301]))"
    unfolding countdown_def countdown_loop_concat range_down_rev by simp
  have 3: "length (filter (\<lambda>e. e = Sleep 1) countdown) = 300"
    unfolding countdown_def by (simp only: countdown_loop_sleeps length_range_down)
  show ?thesis using 1 2 3 by blast
qed

theorem countdown_then_refresh_witness:
  "fst (script plain_pandas (one_sheet ''u'' ''Sheet1'' scenario_rows)
          (some_widgets\<lparr>sheet_url := ''u'', auto_refresh := True\<rparr>) 0 Map.empty)
     = show_data plain_pandas (some_widgets\<lparr>sheet_url := ''u'', auto_refresh := True\<rparr>)
          (converted plain_pandas (DataFrame scenario_rows))
        @ [StInfo ''Auto-refresh aktif. Data akan diperbarui otomatis setiap 5 menit.'']
        @ countdown @ [CacheDataClear, Rerun] \<and>
   length (filter (\<lambda>e. e = Sleep 1) countdown) = 300"
proof -
  let ?w = "some_widgets\<lparr>sheet_url := ''u'', auto_refresh := True\<rparr>"
  let ?B = "one_sheet ''u'' ''Sheet1'' scenario_rows"
  let ?d = "converted plain_pandas (DataFrame scenario_rows)"
  have a: "\<not> refresh_now ?w" by (simp add: some_widgets_def)
  have b: "sheet_url ?w \<noteq> []" by simp
  have c: "auto_refresh ?w" by simp
  have n: "\<not> fresh (Map.empty :: cache) (sheet_url ?w, sheet_name ?w) 0"
    by (simp add: fresh_def)
  have s: "sheet_url ?w = ''u''" "sheet_name ?w = ''Sheet1''"
    by (simp_all add: some_widgets_def)
  have l: "cached_load_data plain_pandas ?B 0 Map.empty (sheet_url ?w) (sheet_name ?w)
      = (([], Some ?d),
         [(sheet_url ?w, sheet_name ?w) \<mapsto> (([], Some ?d), 0)])"
    unfolding cached_load_miss [OF n] unfolding s load_data_one_sheet ..
  show ?thesis
    using countdown_then_refresh [OF a b c l not_empty_scenario] by simp
qed

theorem countdown_then_refresh_counterexample:
  "auto_refresh (some_widgets\<lparr>sheet_url := ''u'', auto_refresh := True\<rparr>) \<and>
   fst (script plain_pandas (one_sheet ''u'' ''Sheet1'' [])
          (some_widgets\<lparr>sheet_url := ''u'', auto_refresh := True\<rparr>) 0 Map.empty)
     = [StWarning ''Sheet kosong atau tidak ada data'']"
proof -
  have n: "\<not> fresh (Map.empty :: cache) (''u'', ''Sheet1'') 0" by (simp add: fresh_def)
  have l: "load_data plain_pandas (one_sheet ''u'' ''Sheet1'' []) ''u'' ''Sheet1''
      = ([], Some \<lparr>index = 0, cols = []\<rparr>)"
    by (simp add: load_data_one_sheet converted_def DataFrame_Nil)
  show ?thesis
    by (simp add: script_def some_widgets_def cached_load_miss [OF n] l empty_df_def)
qed

text \<open>
  Claim C9. For every list of fetched records the conversion loop returns a frame (it
  does not raise) with the same number of rows, the same labels in the same order, and
  in every column as many values as before.
\<close>

theorem conversion_keeps_shape:
  "auto_convert L (DataFrame data) = Inr (converted L (DataFrame data)) \<and>
   index (converted L (DataFrame data)) = index (DataFrame data) \<and>
   columns (converted L (DataFrame data)) = columns (DataFrame data) \<and>
   map (\<lambda>(k, s). length (vals s)) (cols (converted L (DataFrame data)))
     = map (\<lambda>(k, s). length (vals s)) (cols (DataFrame data))"
  by (simp add: auto_convert_DataFrame index_converted columns_converted)
    (simp add: converted_def case_prod_unfold length_convert_series)

text \<open>
  Claim C10. A run in which the refresh button is pressed does two things, clearing the
  cache and asking for a rerun, and leaves a cache with no entry at all, for any locator
  and sheet name; the next call of the loader, for any pair, fetches.
\<close>

theorem refresh_button_clears_all:
  "script L B (w\<lparr>refresh_now := True\<rparr>) now c = ([CacheDataClear, Rerun], Map.empty) \<and>
   cached_load_data L B later (snd (script L B (w\<lparr>refresh_now := True\<rparr>) now c)) u n
     = (load_data L B u n, [(u, n) \<mapsto> (load_data L B u n, later)])"
  by (simp add: script_def cache_data_clear_def cached_load_data_def cache_data_def)

end
